theory Spec2Isabelle
  imports Complex_Main
begin

section \<open>Host values\<close>

text \<open>
  JavaScript values that reach the widget as untyped arguments (the argument of
  \<open>removeItemsByValue\<close>, the configured callbacks). \<open>truthy\<close> is the language's
  boolean coercion; a number is an integer here, so \<open>NaN\<close> does not occur.
\<close>

datatype js_value =
  JUndefined | JNull | JBoolean bool | JNumber int | JString string | JObject | JFunction

fun truthy :: "js_value \<Rightarrow> bool" where
  "truthy JUndefined = False"
| "truthy JNull = False"
| "truthy (JBoolean b) = b"
| "truthy (JNumber n) = (n \<noteq> 0)"
| "truthy (JString s) = (s \<noteq> [])"
| "truthy JObject = True"
| "truthy JFunction = True"

text \<open>
  Modelled from the spec: \<open>isType\<close> of \<open>lib/utils.js\<close>, which is not among the
  sources; the spec names the two misuse checks it serves (a value that is not a string,
  a callback that is not a function).
\<close>

fun isType_String :: "js_value \<Rightarrow> bool" where
  "isType_String (JString s) = True"
| "isType_String v = False"

fun isType_Function :: "js_value \<Rightarrow> bool" where
  "isType_Function JFunction = True"
| "isType_Function v = False"

text \<open>What a method hands back: the class instance, or nothing.\<close>

datatype ret = ReturnUndefined | ReturnThis

text \<open>
  A string is its sequence of bytes in UTF-8, so that a character outside ASCII takes two
  or three elements of the list. \<open>white_space\<close> lists the characters that
  \<open>String.prototype.trim\<close> removes, the white space and the line terminators of the
  language: tab, line feed, vertical tab, form feed, carriage return and space; the
  no-break space U+00A0; U+1680; U+2000 to U+200A; the separators U+2028 and U+2029;
  U+202F, U+205F, U+3000; and the byte order mark U+FEFF.
\<close>

definition white_space :: "string list" where
  "white_space =
     [[CHR 0x09], [CHR 0x0A], [CHR 0x0B], [CHR 0x0C], [CHR 0x0D], [CHR 0x20],
      [CHR 0xC2, CHR 0xA0],
      [CHR 0xE1, CHR 0x9A, CHR 0x80],
      [CHR 0xE2, CHR 0x80, CHR 0x80], [CHR 0xE2, CHR 0x80, CHR 0x81],
      [CHR 0xE2, CHR 0x80, CHR 0x82], [CHR 0xE2, CHR 0x80, CHR 0x83],
      [CHR 0xE2, CHR 0x80, CHR 0x84], [CHR 0xE2, CHR 0x80, CHR 0x85],
      [CHR 0xE2, CHR 0x80, CHR 0x86], [CHR 0xE2, CHR 0x80, CHR 0x87],
      [CHR 0xE2, CHR 0x80, CHR 0x88], [CHR 0xE2, CHR 0x80, CHR 0x89],
      [CHR 0xE2, CHR 0x80, CHR 0x8A],
      [CHR 0xE2, CHR 0x80, CHR 0xA8], [CHR 0xE2, CHR 0x80, CHR 0xA9],
      [CHR 0xE2, CHR 0x80, CHR 0xAF],
      [CHR 0xE2, CHR 0x81, CHR 0x9F],
      [CHR 0xE3, CHR 0x80, CHR 0x80],
      [CHR 0xEF, CHR 0xBB, CHR 0xBF]]"

text \<open>
  \<open>strip_start\<close> removes from the start of a string, as long as there is one, a
  leading occurrence of one of the given byte sequences. \<open>trim\<close> does so with the
  white space characters at the start, and at the end by reading string and characters
  backwards.
\<close>

function strip_start :: "string list \<Rightarrow> string \<Rightarrow> string" where
  "strip_start toks s =
     (case find (\<lambda>t. t \<noteq> [] \<and> take (length t) s = t) toks of
        None \<Rightarrow> s
      | Some t \<Rightarrow> strip_start toks (drop (length t) s))"
  by pat_completeness auto

termination
proof (relation "measure (\<lambda>(toks, s). length s)")
  show "wf (measure (\<lambda>(toks, s). length s))" by simp
next
  fix toks :: "string list" and s t :: string
  assume "find (\<lambda>t. t \<noteq> [] \<and> take (length t) s = t) toks = Some t"
  then have t: "t \<noteq> []" and "take (length t) s = t"
    by (auto simp add: find_Some_iff)
  then have "length t = min (length s) (length t)"
    by (metis length_take)
  with t have "length s - length t < length s"
    by (cases t) auto
  then show "((toks, drop (length t) s), (toks, s)) \<in> measure (\<lambda>(toks, s). length s)"
    by simp
qed

definition trim :: "string \<Rightarrow> string" where
  "trim s = rev (strip_start (map rev white_space) (rev (strip_start white_space s)))"

text \<open>\<open>Array.prototype.join\<close>.\<close>

fun join :: "string \<Rightarrow> string list \<Rightarrow> string" where
  "join d [] = []"
| "join d [x] = x"
| "join d (x # y # ys) = x @ d @ join d (y # ys)"

subsection \<open>Regular expressions\<close>

text \<open>
  The fragment of the host's \<open>RegExp\<close> that the filter of the claims needs: character
  ranges, sequence, alternation, star and plus, with the anchors \<open>^\<close> and \<open>$\<close> as two
  flags of the pattern. Matching is by derivatives. The widget always builds the
  expression with the flag \<open>i\<close>, so a range also accepts the letter of the other case.
\<close>

datatype regex =
  Never | Eps | Range char char | Seq regex regex | Alt regex regex | Star regex | Plus regex

datatype pattern = Pattern bool regex bool

definition code_of :: "char \<Rightarrow> nat" where
  "code_of c = of_char c"

definition swap_case :: "char \<Rightarrow> char" where
  "swap_case c =
     (if 65 \<le> code_of c \<and> code_of c \<le> 90 then char_of (code_of c + 32)
      else if 97 \<le> code_of c \<and> code_of c \<le> 122 then char_of (code_of c - 32)
      else c)"

definition in_range :: "char \<Rightarrow> char \<Rightarrow> char \<Rightarrow> bool" where
  "in_range lo hi c = (code_of lo \<le> code_of c \<and> code_of c \<le> code_of hi)"

definition in_range_i :: "char \<Rightarrow> char \<Rightarrow> char \<Rightarrow> bool" where
  "in_range_i lo hi c = (in_range lo hi c \<or> in_range lo hi (swap_case c))"

fun nullable :: "regex \<Rightarrow> bool" where
  "nullable Never = False"
| "nullable Eps = True"
| "nullable (Range lo hi) = False"
| "nullable (Seq r s) = (nullable r \<and> nullable s)"
| "nullable (Alt r s) = (nullable r \<or> nullable s)"
| "nullable (Star r) = True"
| "nullable (Plus r) = nullable r"

fun deriv :: "char \<Rightarrow> regex \<Rightarrow> regex" where
  "deriv c Never = Never"
| "deriv c Eps = Never"
| "deriv c (Range lo hi) = (if in_range_i lo hi c then Eps else Never)"
| "deriv c (Seq r s) =
     (if nullable r then Alt (Seq (deriv c r) s) (deriv c s) else Seq (deriv c r) s)"
| "deriv c (Alt r s) = Alt (deriv c r) (deriv c s)"
| "deriv c (Star r) = Seq (deriv c r) (Star r)"
| "deriv c (Plus r) = Seq (deriv c r) (Star r)"

definition matches :: "regex \<Rightarrow> string \<Rightarrow> bool" where
  "matches r s = nullable (fold deriv s r)"

text \<open>
  \<open>RegExp.prototype.test\<close>: some substring matches the body; an anchor pins that
  substring to the start or to the end of the value.
\<close>

definition regexp_test :: "pattern \<Rightarrow> string \<Rightarrow> bool" where
  "regexp_test p v =
     (case p of Pattern at_start body at_end \<Rightarrow>
        list_ex (\<lambda>i. list_ex (\<lambda>n. matches body (take n (drop i v)))
                       (if at_end then [length v - i] else [0..<Suc (length v - i)]))
                (if at_start then [0] else [0..<Suc (length v)]))"

text \<open>The filter of the scenario, \<open>^[0-9]+$\<close>.\<close>

definition digits_only :: pattern where
  "digits_only = Pattern True (Plus (Range CHR ''0'' CHR ''9'')) True"

section \<open>Data model\<close>

datatype element_type = SelectOne | SelectMultiple | TextInput

record item =
  item_id :: int
  item_value :: string
  item_label :: string
  item_active :: bool
  item_selected :: bool
  item_choiceId :: int

record choice =
  choice_id :: int
  choice_value :: string
  choice_label :: string
  choice_groupId :: int
  choice_selected :: bool
  choice_disabled :: bool
  choice_active :: bool
  choice_score :: "rat option"

text \<open>One result of the fuzzy search: the id of the matched choice and its score.\<close>

type_synonym search_result = "int \<times> rat"

text \<open>
  Modelled from the spec: the action creators of \<open>actions/index\<close> and the reducers of
  the store, none of which is among the sources. Each reducer follows the sentence of the
  spec's section 4.1 that describes it.
\<close>

datatype action =
  AddItem string string int int
| RemoveItem int int
| SelectItem int bool
| AddChoice string string int int bool
| FilterChoices "search_result list"
| ActivateChoices bool
| ClearAll

fun items_reducer :: "item list \<Rightarrow> action \<Rightarrow> item list" where
  "items_reducer its (AddItem v l i c) =
     its @ [\<lparr>item_id = i, item_value = v, item_label = l, item_active = True,
             item_selected = False, item_choiceId = c\<rparr>]"
| "items_reducer its (RemoveItem i c) =
     map (\<lambda>it. if item_id it = i then it\<lparr>item_active := False\<rparr> else it) its"
| "items_reducer its (SelectItem i s) =
     map (\<lambda>it. if item_id it = i \<and> item_active it then it\<lparr>item_selected := s\<rparr> else it) its"
| "items_reducer its ClearAll = []"
| "items_reducer its a = its"

fun choices_reducer :: "choice list \<Rightarrow> action \<Rightarrow> choice list" where
  "choices_reducer cs (AddChoice v l i g d) =
     cs @ [\<lparr>choice_id = i, choice_value = v, choice_label = l, choice_groupId = g,
            choice_selected = False, choice_disabled = d, choice_active = True,
            choice_score = None\<rparr>]"
| "choices_reducer cs (RemoveItem i c) =
     map (\<lambda>ch. if choice_id ch = c then ch\<lparr>choice_selected := False\<rparr> else ch) cs"
| "choices_reducer cs (FilterChoices results) =
     sort_key (\<lambda>ch. case choice_score ch of None \<Rightarrow> 0 | Some s \<Rightarrow> s)
       (map (\<lambda>ch. case map_of results (choice_id ch) of
                     None \<Rightarrow> ch\<lparr>choice_active := False\<rparr>
                   | Some s \<Rightarrow> ch\<lparr>choice_active := True, choice_score := Some s\<rparr>) cs)"
| "choices_reducer cs (ActivateChoices reset) =
     map (\<lambda>ch. if reset then ch\<lparr>choice_active := True, choice_selected := False\<rparr>
                else ch\<lparr>choice_active := True\<rparr>) cs"
| "choices_reducer cs ClearAll = []"
| "choices_reducer cs a = cs"

section \<open>The widget\<close>

record options =
  maxItemCount :: int
  addItems :: bool
  removeItems :: bool
  editItems :: bool
  duplicateItems :: bool
  delimiter :: string
  searchOptions :: bool
  regexFilter :: "pattern option"
  prependValue :: "string option"
  appendValue :: "string option"
  callbackOnAddItem :: js_value
  callbackOnRemoveItem :: js_value

text \<open>The notices that the key-up handler of a text input puts into the dropdown.\<close>

datatype notice = OnlyNOptions int | OnlyUniqueValues | AddValue string

text \<open>
  The model covers the store, the public methods that select and remove items, the
  adding of items and choices, and the key handlers. Mouse and focus handlers, option
  groups, \<open>ajax\<close>, the scrolling of the dropdown and the markup of the templates
  are left out; nothing below depends on them.

  The instance: its options, the store, and the part of the page that the handlers read
  back (the value of the input, the rendered item elements, the value of the passed
  element, whether the dropdown carries the active class, its notice). The passed element
  has its \<open>value\<close> attribute, which \<open>render\<close> writes, and the value that a
  script or the user has given it, if any has (\<open>passedElement_valueSet\<close>). Three
  logs record what leaves the instance: the actions dispatched, the callbacks invoked
  and the messages written with \<open>console.error\<close>. A callback is an observer: it
  does not call back into the widget.
\<close>

record widget =
  opts :: options
  passedElement_type :: element_type
  passedElement_valueAttribute :: string
  passedElement_valueSet :: "string option"
  store_items :: "item list"
  store_choices :: "choice list"
  subscribed :: bool
  prevState_items :: "item list option"
  input_value :: string
  itemList_children :: "item list"
  dropdown_active :: bool
  dropdown_notice :: "notice option"
  canSearch :: bool
  currentValue :: string
  isSearching :: bool
  highlightPosition :: nat
  dispatched :: "action list"
  callback_calls :: "(string \<times> int \<times> string) list"
  console_errors :: "string list"

text \<open>
  \<open>passedElement.value\<close>, the \<open>value\<close> property of a text input: the value
  that was last set on the element itself, and, as long as none was, the content of the
  \<open>value\<close> attribute without its line breaks. Once a value has been set, the property
  no longer follows the attribute.
\<close>

definition strip_newlines :: "string \<Rightarrow> string" where
  "strip_newlines s = filter (\<lambda>c. c \<noteq> CHR 0x0A \<and> c \<noteq> CHR 0x0D) s"

definition passedElement_value :: "widget \<Rightarrow> string" where
  "passedElement_value w =
     (case passedElement_valueSet w of
        None \<Rightarrow> strip_newlines (passedElement_valueAttribute w)
      | Some v \<Rightarrow> v)"

subsection \<open>Store\<close>

text \<open>
  Modelled from the spec: the getters of \<open>store/index.js\<close>, which is not among the
  sources. The full logs, the active items, and the choices that are neither disabled
  nor selected.
\<close>

definition getItems :: "widget \<Rightarrow> item list" where
  "getItems w = store_items w"

definition getItemsFilteredByActive :: "widget \<Rightarrow> item list" where
  "getItemsFilteredByActive w = filter item_active (store_items w)"

definition getChoices :: "widget \<Rightarrow> choice list" where
  "getChoices w = store_choices w"

definition getChoicesFiltedBySelectable :: "widget \<Rightarrow> choice list" where
  "getChoicesFiltedBySelectable w =
     filter (\<lambda>ch. \<not> choice_disabled ch \<and> \<not> choice_selected ch) (store_choices w)"

definition getItemsReducedToValues :: "item list \<Rightarrow> string list" where
  "getItemsReducedToValues its = map item_value its"

text \<open>
  \<open>render\<close>, the items section: when the items of the store are not those of the last
  render, the item list is rebuilt from the active items, and a text input gets their
  values, joined by the delimiter, as its \<open>value\<close> attribute
  (\<open>setAttribute('value', ...)\<close>). The source compares the two arrays as
  references, the model as values: a render that the source repeats on equal items
  rebuilds what is already there. The sections for choices and groups only build markup
  and are left out.
\<close>

definition render :: "widget \<Rightarrow> widget" where
  "render w =
     (if Some (store_items w) \<noteq> prevState_items w then
        (let activeItems = getItemsFilteredByActive w;
             w1 = (if passedElement_type w = TextInput
                   then w\<lparr>passedElement_valueAttribute :=
                            join (delimiter (opts w)) (getItemsReducedToValues activeItems)\<rparr>
                   else w)
         in w1\<lparr>itemList_children := activeItems, prevState_items := Some (store_items w)\<rparr>)
      else w)"

text \<open>
  Modelled from the spec: \<open>dispatch\<close> of the store applies the reducers and then
  notifies the subscriber, which is \<open>render\<close> once \<open>init\<close> has subscribed it.
\<close>

definition dispatch :: "action \<Rightarrow> widget \<Rightarrow> widget" where
  "dispatch a w =
     (let w1 = w\<lparr>store_items := items_reducer (store_items w) a,
                 store_choices := choices_reducer (store_choices w) a,
                 dispatched := dispatched w @ [a]\<rparr>
      in if subscribed w1 then render w1 else w1)"

subsection \<open>Public methods\<close>

definition selectItem :: "item option \<Rightarrow> widget \<Rightarrow> widget" where
  "selectItem item w =
     (case item of None \<Rightarrow> w | Some it \<Rightarrow> dispatch (SelectItem (item_id it) True) w)"

definition deselectItem :: "item option \<Rightarrow> widget \<Rightarrow> widget" where
  "deselectItem item w =
     (case item of None \<Rightarrow> w | Some it \<Rightarrow> dispatch (SelectItem (item_id it) False) w)"

definition highlightAll :: "widget \<Rightarrow> widget" where
  "highlightAll w = fold (\<lambda>it. selectItem (Some it)) (getItems w) w"

definition deselectAll :: "widget \<Rightarrow> widget" where
  "deselectAll w = fold (\<lambda>it. deselectItem (Some it)) (getItems w) w"

text \<open>
  \<open>removeItemsByValue\<close>: the \<open>return\<close> that follows the check on the same line is not
  part of the \<open>if\<close>, so the method ends there for every argument; the loop over the
  active items below it is never reached.
\<close>

definition removeItemsByValue :: "js_value \<Rightarrow> widget \<Rightarrow> ret \<times> widget" where
  "removeItemsByValue v w =
     (let w1 = (if \<not> truthy v \<or> \<not> isType_String v
                then w\<lparr>console_errors := console_errors w @
                         [''removeItemsByValue: No value was passed to be removed'']\<rparr>
                else w)
      in (ReturnUndefined, w1))"

text \<open>
  \<open>_removeItem(item, callback = this.options.callbackOnRemoveItem)\<close>. The item is
  \<open>None\<close> when the argument is missing or not an object. Inside \<open>if(callback)\<close> the
  \<open>return\<close> after the type check is again not part of the inner \<open>if\<close>.
\<close>

definition priv_removeItem :: "item option \<Rightarrow> js_value \<Rightarrow> widget \<Rightarrow> ret \<times> widget" where
  "priv_removeItem item cb w =
     (let callback = (if cb = JUndefined then callbackOnRemoveItem (opts w) else cb)
      in case item of
           None \<Rightarrow>
             (ReturnUndefined,
              w\<lparr>console_errors := console_errors w @
                   [''removeItem: No item object was passed to be removed'']\<rparr>)
         | Some it \<Rightarrow>
             (let w1 = dispatch (RemoveItem (item_id it) (item_choiceId it)) w
              in if truthy callback then
                   (ReturnUndefined,
                    if \<not> isType_Function callback
                    then w1\<lparr>console_errors := console_errors w1 @
                              [''callbackOnRemoveItem: Callback is not a function'']\<rparr>
                    else w1)
                 else (ReturnThis, w1)))"

definition removeActiveItems :: "int option \<Rightarrow> widget \<Rightarrow> widget" where
  "removeActiveItems excludedId w =
     fold (\<lambda>it w'. if item_active it \<and> excludedId \<noteq> Some (item_id it)
                    then snd (priv_removeItem (Some it) JUndefined w') else w')
          (getItemsFilteredByActive w) w"

definition removeSelectedItems :: "widget \<Rightarrow> widget" where
  "removeSelectedItems w =
     fold (\<lambda>it w'. if item_selected it \<and> item_active it
                    then snd (priv_removeItem (Some it) JUndefined w') else w')
          (getItemsFilteredByActive w) w"

text \<open>
  Of the classes that showing and hiding the dropdown toggle, the handlers read back
  only the active class of the dropdown; the open and flipped classes of the container
  are not kept.
\<close>

definition showDropdown :: "widget \<Rightarrow> widget" where
  "showDropdown w = w\<lparr>dropdown_active := True\<rparr>"

definition hideDropdown :: "widget \<Rightarrow> widget" where
  "hideDropdown w = w\<lparr>dropdown_active := False\<rparr>"

definition toggleDropdown :: "widget \<Rightarrow> widget" where
  "toggleDropdown w = (if dropdown_active w then hideDropdown w else showDropdown w)"

definition clearInput :: "widget \<Rightarrow> widget" where
  "clearInput w = (if input_value w \<noteq> [] then w\<lparr>input_value := []\<rparr> else w)"

subsection \<open>Adding items and choices\<close>

text \<open>
  \<open>_addItem(value, label, choiceId = -1, callback = this.options.callbackOnAddItem)\<close>.
  A missing label or choice id is \<open>None\<close>; an empty label and the id \<open>0\<close> are falsy
  and fall back as the missing ones do. The id of the new item is the length of the item
  log plus one. A select-one input then removes every other active item.
\<close>

definition priv_addItem ::
  "string \<Rightarrow> string option \<Rightarrow> int option \<Rightarrow> js_value \<Rightarrow> widget \<Rightarrow> widget" where
  "priv_addItem v label choiceId cb w =
     (let callback = (if cb = JUndefined then callbackOnAddItem (opts w) else cb);
          items = getItems w;
          trimmed = trim v;
          passedLabel = (case label of None \<Rightarrow> trimmed
                         | Some l \<Rightarrow> if l \<noteq> [] then l else trimmed);
          passedOptionId = (case choiceId of None \<Rightarrow> - 1
                            | Some c \<Rightarrow> if c \<noteq> 0 then c else - 1);
          prepended = (case prependValue (opts w) of None \<Rightarrow> trimmed
                       | Some p \<Rightarrow> if p \<noteq> [] then p @ trimmed else trimmed);
          passedValue = (case appendValue (opts w) of None \<Rightarrow> prepended
                         | Some a \<Rightarrow> if a \<noteq> [] then prepended @ a else prepended);
          new_id = int (length items) + 1;
          w1 = dispatch (AddItem passedValue passedLabel new_id passedOptionId) w;
          w2 = (if passedElement_type w1 = SelectOne
                then removeActiveItems (Some new_id) w1 else w1)
      in if truthy callback then
           (if isType_Function callback
            then w2\<lparr>callback_calls := callback_calls w2 @
                      [(''callbackOnAddItem'', new_id, passedValue)]\<rparr>
            else w2\<lparr>console_errors := console_errors w2 @
                      [''callbackOnAddItem: Callback is not a function'']\<rparr>)
         else w2)"

definition priv_addChoice ::
  "bool \<Rightarrow> bool \<Rightarrow> string \<Rightarrow> string option \<Rightarrow> int option \<Rightarrow> widget \<Rightarrow> widget" where
  "priv_addChoice isSelected isDisabled v label groupId w =
     (if v = [] then w
      else
        (let label' = (case label of None \<Rightarrow> v | Some l \<Rightarrow> if l \<noteq> [] then l else v);
             groupId' = (case groupId of None \<Rightarrow> - 1 | Some g \<Rightarrow> g);
             choices = getChoices w;
             new_id = int (length choices) + 1;
             w1 = dispatch (AddChoice v label' new_id groupId' isDisabled) w
         in if isSelected \<and> \<not> isDisabled
            then priv_addItem v (Some label') (Some new_id) JUndefined w1
            else w1))"

text \<open>
  An element of the array given to \<open>setValue\<close> (and of the preset items): a string, an
  object with a value (empty when it has none), a label and an id, or anything else.
\<close>

datatype value_arg = ValueString string | ValueObject string "string option" "int option" | ValueOther

definition setValue :: "value_arg list \<Rightarrow> widget \<Rightarrow> widget" where
  "setValue args w =
     fold (\<lambda>arg w'.
             case arg of
               ValueObject v l i \<Rightarrow>
                 if v = [] then w'
                 else if passedElement_type w' \<noteq> TextInput
                 then priv_addChoice True False v l (Some (- 1)) w'
                 else priv_addItem v l i JUndefined w'
             | ValueString s \<Rightarrow>
                 if passedElement_type w' \<noteq> TextInput
                 then priv_addChoice True False s (Some s) (Some (- 1)) w'
                 else priv_addItem s None None JUndefined w'
             | ValueOther \<Rightarrow> w')
          args w"

definition clearValue :: "widget \<Rightarrow> widget" where
  "clearValue w = dispatch ClearAll w"

subsection \<open>Key handling\<close>

text \<open>
  \<open>_regexFilter\<close>: an empty value gives \<open>undefined\<close>, which its callers read as
  false. Without a configured filter the expression is built from \<open>null\<close> and looks
  for that word; the callers ask only when a filter is configured.
\<close>

definition null_pattern :: pattern where
  "null_pattern =
     Pattern False
       (Seq (Range CHR ''n'' CHR ''n'') (Seq (Range CHR ''u'' CHR ''u'')
         (Seq (Range CHR ''l'' CHR ''l'') (Range CHR ''l'' CHR ''l'')))) False"

definition priv_regexFilter :: "string \<Rightarrow> widget \<Rightarrow> bool" where
  "priv_regexFilter v w =
     (if v = [] then False
      else regexp_test (case regexFilter (opts w) of None \<Rightarrow> null_pattern | Some p \<Rightarrow> p) v)"

definition priv_handleEnter :: "item list \<Rightarrow> string \<Rightarrow> widget \<Rightarrow> widget" where
  "priv_handleEnter activeItems v w =
     (let canUpdate =
            (if addItems (opts w) then
               (if maxItemCount (opts w) \<noteq> 0 \<and> maxItemCount (opts w) > 0
                   \<and> maxItemCount (opts w) \<le> int (length (itemList_children w))
                then False
                else if duplicateItems (opts w) = False \<and> passedElement_value w \<noteq> []
                then \<not> list_ex (\<lambda>it. item_value it = v) activeItems
                else True)
             else False)
      in if canUpdate then
           (let canAddItem = (if regexFilter (opts w) \<noteq> None then priv_regexFilter v w else True)
            in if canAddItem
               then clearInput (priv_addItem v None None JUndefined (toggleDropdown w))
               else w)
         else w)"

definition priv_handleBackspace :: "item list \<Rightarrow> widget \<Rightarrow> widget" where
  "priv_handleBackspace activeItems w =
     (if removeItems (opts w) then
        (let lastItem = (if activeItems = [] then None else Some (last activeItems));
             hasSelectedItems = list_ex (\<lambda>it. item_selected it = True) activeItems
         in if editItems (opts w) \<and> \<not> hasSelectedItems \<and> lastItem \<noteq> None then
              snd (priv_removeItem lastItem JUndefined
                     (w\<lparr>input_value := item_value (the lastItem)\<rparr>))
            else
              removeSelectedItems (if \<not> hasSelectedItems then selectItem lastItem w else w))
      else w)"

text \<open>
  A key event as the handlers see it: whether its target is the input of the widget, the
  key code, the modifier keys, whether the input is the active element of the document,
  and the element of the dropdown that carries the highlighted class, if there is one
  (its \<open>data-value\<close>, its content and its \<open>data-id\<close>).
\<close>

record key_event =
  target_is_input :: bool
  keyCode :: nat
  ctrlKey :: bool
  metaKey :: bool
  activeElement_is_input :: bool
  highlighted :: "(string \<times> string \<times> int option) option"

text \<open>\<open>/[a-zA-Z0-9-_ ]/.test(String.fromCharCode(keyCode))\<close>, on the code of the key.\<close>

definition keyString_test :: "nat \<Rightarrow> bool" where
  "keyString_test k =
     ((97 \<le> k \<and> k \<le> 122) \<or> (65 \<le> k \<and> k \<le> 90) \<or> (48 \<le> k \<and> k \<le> 57)
      \<or> k = 45 \<or> k = 95 \<or> k = 32)"

text \<open>
  \<open>_onKeyDown\<close>, in two parts: what runs before the \<open>switch\<close> on the key code
  (a select input opens its dropdown when a character is typed, and \<open>canSearch\<close> is
  reset from the options), and the \<open>switch\<close> itself, which gets the active items and
  the state of the dropdown as they were read on entry. The arrow keys move the
  highlight and scroll the dropdown, which happens in the page alone; of that case the
  model keeps the assignment to \<open>canSearch\<close>. The item list and its children always
  exist, so \<open>hasItems\<close> is true. The key string is built from the key code of the
  event at hand.
\<close>

definition onKeyDown_prelude :: "key_event \<Rightarrow> widget \<Rightarrow> widget" where
  "onKeyDown_prelude e w =
     (let hasActiveDropdown = dropdown_active w;
          w1 = (if passedElement_type w \<noteq> TextInput \<and> keyString_test (keyCode e)
                   \<and> \<not> hasActiveDropdown
                then showDropdown w else w)
      in w1\<lparr>canSearch := searchOptions (opts w1)\<rparr>)"

definition onKeyDown_switch :: "key_event \<Rightarrow> item list \<Rightarrow> bool \<Rightarrow> widget \<Rightarrow> widget" where
  "onKeyDown_switch e activeItems hasActiveDropdown w =
     (let ctrlDownKey = (ctrlKey e \<or> metaKey e);
          hasFocusedInput = activeElement_is_input e
      in if keyCode e = 65 then
           (if ctrlDownKey then
              (let w1 = w\<lparr>canSearch := False\<rparr>
               in if removeItems (opts w1) \<and> input_value w1 = [] \<and> hasFocusedInput
                  then highlightAll w1 else w1)
            else w)
         else if keyCode e = 13 then
           (let w1 = (if input_value w \<noteq> [] \<and> passedElement_type w = TextInput
                      then priv_handleEnter activeItems (input_value w) w else w)
            in if hasActiveDropdown then
                 (case highlighted e of
                    None \<Rightarrow> w1
                  | Some (v, l, i) \<Rightarrow>
                      (let w2 = clearInput (priv_addItem v (Some l) i JUndefined w1)
                       in if passedElement_type w2 = SelectOne
                          then toggleDropdown
                                 (dispatch (ActivateChoices False) (w2\<lparr>isSearching := False\<rparr>))
                          else w2))
               else w1)
         else if keyCode e = 27 then
           (if hasActiveDropdown then toggleDropdown w else w)
         else if keyCode e = 40 \<or> keyCode e = 38 then
           (if hasActiveDropdown then w\<lparr>canSearch := False\<rparr> else w)
         else if keyCode e = 46 \<or> keyCode e = 8 then
           (if hasFocusedInput \<and> input_value w = [] \<and> passedElement_type w \<noteq> SelectOne
            then priv_handleBackspace activeItems w else w)
         else w)"

definition priv_onKeyDown :: "key_event \<Rightarrow> widget \<Rightarrow> widget" where
  "priv_onKeyDown e w =
     (if \<not> target_is_input e then w
      else onKeyDown_switch e (getItemsFilteredByActive w) (dropdown_active w)
             (onKeyDown_prelude e w))"

text \<open>
  \<open>_onKeyUp\<close>, in its two parts: the notice that a text input shows in its dropdown,
  and the search over the choices. The fuzzy search of the external library is the
  parameter \<open>fuse_search\<close>: from the selectable choices and the needle to the scored
  results.
\<close>

definition onKeyUp_notice :: "widget \<Rightarrow> widget" where
  "onKeyUp_notice w =
     (if passedElement_type w = TextInput then
        (let hasActiveDropdown = dropdown_active w
         in if input_value w \<noteq> [] then
              (let activeItems = getItemsFilteredByActive w;
                   isUnique = (\<not> list_ex (\<lambda>it. item_value it = input_value w) activeItems);
                   dropdownItem =
                     (if maxItemCount (opts w) \<noteq> 0 \<and> maxItemCount (opts w) > 0
                         \<and> maxItemCount (opts w) \<le> int (length (itemList_children w))
                      then OnlyNOptions (maxItemCount (opts w))
                      else if \<not> duplicateItems (opts w) \<and> \<not> isUnique then OnlyUniqueValues
                      else AddValue (input_value w))
               in if (regexFilter (opts w) \<noteq> None \<and> priv_regexFilter (input_value w) w)
                     \<or> regexFilter (opts w) = None
                  then (let w1 = w\<lparr>dropdown_notice := Some dropdownItem\<rparr>
                        in if \<not> dropdown_active w1 then showDropdown w1 else w1)
                  else w)
            else if hasActiveDropdown then hideDropdown w else w)
      else w)"

definition onKeyUp_search ::
  "(choice list \<Rightarrow> string \<Rightarrow> search_result list) \<Rightarrow> key_event \<Rightarrow> widget \<Rightarrow> widget" where
  "onKeyUp_search fuse_search e w =
     (if canSearch w then
        (if activeElement_is_input e then
           (let choices = getChoices w;
                hasUnactiveChoices = list_ex (\<lambda>ch. choice_active ch \<noteq> True) choices
            in if input_value w \<noteq> [] \<and> choices \<noteq> [] \<and> keyString_test (keyCode e) then
                 (let newValue = trim (input_value w);
                      currentValue' = trim (currentValue w)
                  in if length newValue \<ge> 1 \<and> newValue \<noteq> currentValue' @ '' '' then
                       (let haystack = getChoicesFiltedBySelectable w;
                            results = fuse_search haystack newValue
                        in dispatch (FilterChoices results)
                             (w\<lparr>currentValue := newValue, highlightPosition := 0,
                                isSearching := True\<rparr>))
                     else w)
               else if hasUnactiveChoices
               then dispatch (ActivateChoices False) (w\<lparr>isSearching := False\<rparr>)
               else w)
         else w)
      else w)"

definition priv_onKeyUp ::
  "(choice list \<Rightarrow> string \<Rightarrow> search_result list) \<Rightarrow> key_event \<Rightarrow> widget \<Rightarrow> widget" where
  "priv_onKeyUp fuse_search e w =
     (if \<not> target_is_input e then w
      else onKeyUp_search fuse_search e (onKeyUp_notice w))"

subsection \<open>Construction\<close>

text \<open>
  The constructor and \<open>init\<close> for an element without option groups.
  \<open>passedValue\<close> is the \<open>value\<close> attribute of the passed element, on which no
  value has been set yet; \<open>presetItems\<close> is the array the constructor has
  assembled (the configured items, then the parts of the passed value);
  \<open>passedOptions\<close> are the options of a select element, each with its selected and
  disabled flags, its value and its content. The store gets its subscriber after the
  input has been created, and \<open>init\<close> then renders once itself.
\<close>

definition createInput :: "value_arg list \<Rightarrow> (bool \<times> bool \<times> string \<times> string) list \<Rightarrow> widget \<Rightarrow> widget" where
  "createInput presetItems passedOptions w =
     (if passedElement_type w = SelectMultiple \<or> passedElement_type w = SelectOne then
        fold (\<lambda>(sel, dis, v, html) w'. priv_addChoice sel dis v (Some html) None w')
             passedOptions (w\<lparr>highlightPosition := 0, isSearching := False\<rparr>)
      else if passedElement_type w = TextInput then
        fold (\<lambda>arg w'.
                case arg of
                  ValueObject v l i \<Rightarrow> if v = [] then w' else priv_addItem v l i JUndefined w'
                | ValueString s \<Rightarrow> priv_addItem s None None JUndefined w'
                | ValueOther \<Rightarrow> w')
             presetItems w
      else w)"

definition new_Choices ::
  "options \<Rightarrow> element_type \<Rightarrow> string \<Rightarrow> value_arg list \<Rightarrow> (bool \<times> bool \<times> string \<times> string) list \<Rightarrow> widget" where
  "new_Choices os ty passedValue presetItems passedOptions =
     (let w0 = \<lparr>opts = os, passedElement_type = ty,
                passedElement_valueAttribute = passedValue, passedElement_valueSet = None,
                store_items = [], store_choices = [], subscribed = False,
                prevState_items = None, input_value = [], itemList_children = [],
                dropdown_active = False, dropdown_notice = None,
                canSearch = searchOptions os, currentValue = [], isSearching = False,
                highlightPosition = 0, dispatched = [], callback_calls = [],
                console_errors = []\<rparr>;
          w1 = createInput presetItems passedOptions w0
      in render (w1\<lparr>subscribed := True\<rparr>))"

text \<open>The options the constructor starts from.\<close>

definition defaultOptions :: options where
  "defaultOptions =
     \<lparr>maxItemCount = - 1, addItems = True, removeItems = True, editItems = False,
      duplicateItems = True, delimiter = '','', searchOptions = True, regexFilter = None,
      prependValue = None, appendValue = None, callbackOnAddItem = JFunction,
      callbackOnRemoveItem = JFunction\<rparr>"

section \<open>Runs and invariants\<close>

text \<open>
  The ways in which the widget adds and removes items, with the reset of the store, the
  text the user types into the input, and a script of the page that sets the value of
  the passed element (a text input keeps it without line breaks) in between.
\<close>

datatype widget_op =
  Op_addItem string "string option" "int option" js_value
| Op_addChoice bool bool string "string option" "int option"
| Op_setValue "value_arg list"
| Op_removeItem "item option" js_value
| Op_removeItemsByValue js_value
| Op_removeActiveItems "int option"
| Op_removeSelectedItems
| Op_clearValue
| Op_input string
| Op_keyDown key_event
| Op_setPassedElementValue string

fun apply_op :: "widget_op \<Rightarrow> widget \<Rightarrow> widget" where
  "apply_op (Op_addItem v l c cb) w = priv_addItem v l c cb w"
| "apply_op (Op_addChoice s d v l g) w = priv_addChoice s d v l g w"
| "apply_op (Op_setValue args) w = setValue args w"
| "apply_op (Op_removeItem item cb) w = snd (priv_removeItem item cb w)"
| "apply_op (Op_removeItemsByValue v) w = snd (removeItemsByValue v w)"
| "apply_op (Op_removeActiveItems x) w = removeActiveItems x w"
| "apply_op (Op_removeSelectedItems) w = removeSelectedItems w"
| "apply_op Op_clearValue w = clearValue w"
| "apply_op (Op_input s) w = w\<lparr>input_value := s\<rparr>"
| "apply_op (Op_keyDown e) w = priv_onKeyDown e w"
| "apply_op (Op_setPassedElementValue s) w =
     w\<lparr>passedElement_valueSet := Some (strip_newlines s)\<rparr>"

definition run :: "widget_op list \<Rightarrow> widget \<Rightarrow> widget" where
  "run ops w = fold apply_op ops w"

text \<open>The ids of the item log are \<open>1, 2, ..., n\<close> in this order.\<close>

definition ids_ok :: "widget \<Rightarrow> bool" where
  "ids_ok w = (map item_id (store_items w) = map int [1..<Suc (length (store_items w))])"

text \<open>
  The page shows the store: the subscriber is in place, the last render saw the current
  items, the item list holds the active items, and a text input carries their joined
  values in its \<open>value\<close> attribute.
\<close>

definition view_synced :: "widget \<Rightarrow> bool" where
  "view_synced w =
     (subscribed w \<and> prevState_items w = Some (store_items w)
      \<and> itemList_children w = getItemsFilteredByActive w
      \<and> (passedElement_type w = TextInput \<longrightarrow>
           passedElement_valueAttribute w =
             join (delimiter (opts w)) (getItemsReducedToValues (getItemsFilteredByActive w))))"

text \<open>Before \<open>init\<close> subscribes \<open>render\<close>, nothing has been rendered.\<close>

definition unrendered :: "widget \<Rightarrow> bool" where
  "unrendered w = (\<not> subscribed w \<and> prevState_items w = None)"

text \<open>
  What removing the items with the ids in \<open>S\<close> does to one entry of the log, and the
  entry that \<open>_addItem\<close> appends for a value, a label and a choice id when it assigns
  the id \<open>n\<close>.
\<close>

definition deactivate :: "int set \<Rightarrow> item \<Rightarrow> item" where
  "deactivate S x = (if item_id x \<in> S then x\<lparr>item_active := False\<rparr> else x)"

definition new_item :: "options \<Rightarrow> string \<Rightarrow> string option \<Rightarrow> int option \<Rightarrow> int \<Rightarrow> item" where
  "new_item os v l c n =
     \<lparr>item_id = n,
      item_value =
        (case appendValue os of
           None \<Rightarrow> (case prependValue os of None \<Rightarrow> trim v
                    | Some p \<Rightarrow> if p \<noteq> [] then p @ trim v else trim v)
         | Some a \<Rightarrow>
             if a \<noteq> []
             then (case prependValue os of None \<Rightarrow> trim v
                   | Some p \<Rightarrow> if p \<noteq> [] then p @ trim v else trim v) @ a
             else (case prependValue os of None \<Rightarrow> trim v
                   | Some p \<Rightarrow> if p \<noteq> [] then p @ trim v else trim v)),
      item_label = (case l of None \<Rightarrow> trim v | Some l' \<Rightarrow> if l' \<noteq> [] then l' else trim v),
      item_active = True, item_selected = False,
      item_choiceId = (case c of None \<Rightarrow> - 1 | Some c' \<Rightarrow> if c' \<noteq> 0 then c' else - 1)\<rparr>"

subsection \<open>Example inputs\<close>

text \<open>The Enter key in the focused input, with no element highlighted in the dropdown.\<close>

definition enter_key :: key_event where
  "enter_key = \<lparr>target_is_input = True, keyCode = 13, ctrlKey = False, metaKey = False,
                 activeElement_is_input = True, highlighted = None\<rparr>"

text \<open>
  A text input holding the items \<open>a\<close> and \<open>b\<close>; a text input without a callback for
  removals, holding \<open>a\<close>; a select-one input with \<open>x\<close> chosen.
\<close>

definition w_ab :: widget where
  "w_ab = setValue [ValueString ''a'', ValueString ''b'']
            (new_Choices defaultOptions TextInput [] [] [])"

definition w_no_callback :: widget where
  "w_no_callback = setValue [ValueString ''a'']
                     (new_Choices (defaultOptions\<lparr>callbackOnRemoveItem := JNull\<rparr>) TextInput [] [] [])"

definition w_one :: widget where
  "w_one = new_Choices defaultOptions SelectOne [] []
             [(True, False, ''x'', ''X''), (False, False, ''y'', ''Y'')]"




definition w_digits_full :: widget where
  "w_digits_full =
     priv_addItem ''7'' None None JUndefined
       (new_Choices (defaultOptions\<lparr>maxItemCount := 1, regexFilter := Some digits_only\<rparr>)
          TextInput [] [] [])"

definition no_search :: "choice list \<Rightarrow> string \<Rightarrow> search_result list" where
  "no_search haystack needle = []"



text \<open>
  Text inputs with the filter \<open>^[0-9]+$\<close>: one with the other options at their
  defaults, one that also prepends \<open>#\<close> to every value.
\<close>

definition w_digits :: widget where
  "w_digits = new_Choices (defaultOptions\<lparr>regexFilter := Some digits_only\<rparr>) TextInput [] [] []"

definition w_digits_prefixed :: widget where
  "w_digits_prefixed =
     new_Choices (defaultOptions\<lparr>regexFilter := Some digits_only, prependValue := Some ''#''\<rparr>)
       TextInput [] [] []"

text \<open>
  The Backspace key in the focused input; a text input that keeps its items
  (\<open>removeItems\<close> off) with edit mode on and the item \<open>foo\<close>; a text input with edit
  mode on and the items \<open>bar\<close> and \<open>foo\<close>; the same with \<open>bar\<close> selected; the
  same two items with edit mode off.
\<close>

definition backspace_key :: key_event where
  "backspace_key = \<lparr>target_is_input = True, keyCode = 8, ctrlKey = False, metaKey = False,
                     activeElement_is_input = True, highlighted = None\<rparr>"





text \<open>
  Key events in the focused input: the letter \<open>X\<close> and the space bar. A
  select-multiple input with the one choice \<open>apple\<close> and the text \<open>x\<close> typed; the
  same after the key-up of \<open>x\<close> has searched and found nothing, so that the choice is
  inactive.
\<close>

definition letter_key :: key_event where
  "letter_key = \<lparr>target_is_input = True, keyCode = 88, ctrlKey = False, metaKey = False,
                  activeElement_is_input = True, highlighted = None\<rparr>"

definition space_key :: key_event where
  "space_key = \<lparr>target_is_input = True, keyCode = 32, ctrlKey = False, metaKey = False,
                 activeElement_is_input = True, highlighted = None\<rparr>"

definition w_typed :: widget where
  "w_typed =
     (new_Choices defaultOptions SelectMultiple [] [] [(False, False, ''apple'', ''Apple'')])
       \<lparr>input_value := ''x''\<rparr>"

definition w_searched :: widget where
  "w_searched = priv_onKeyUp no_search letter_key w_typed"

section \<open>Store and render\<close>

lemma fold_preserves:
  assumes "\<And>x s. P s \<Longrightarrow> P (f x s)" and "P s"
  shows "P (fold f xs s)"
  using assms(2) by (induction xs arbitrary: s) (auto intro: assms(1))

lemma store_items_render [simp]: "store_items (render w) = store_items w"
  by (simp add: render_def Let_def)

lemma store_items_dispatch [simp]:
  "store_items (dispatch a w) = items_reducer (store_items w) a"
  by (simp add: dispatch_def Let_def)

lemma passedElement_type_render [simp]: "passedElement_type (render w) = passedElement_type w"
  by (simp add: render_def Let_def)

lemma passedElement_type_dispatch [simp]:
  "passedElement_type (dispatch a w) = passedElement_type w"
  by (simp add: dispatch_def Let_def)

lemma dispatched_render [simp]: "dispatched (render w) = dispatched w"
  by (simp add: render_def Let_def)

lemma callback_calls_render [simp]: "callback_calls (render w) = callback_calls w"
  by (simp add: render_def Let_def)

lemma dispatched_dispatch [simp]: "dispatched (dispatch a w) = dispatched w @ [a]"
  by (simp add: dispatch_def Let_def)

lemma callback_calls_dispatch [simp]: "callback_calls (dispatch a w) = callback_calls w"
  by (simp add: dispatch_def Let_def)

lemma item_ids_reducer:
  "map item_id (items_reducer its a) =
     (case a of AddItem v l i c \<Rightarrow> map item_id its @ [i] | ClearAll \<Rightarrow> []
      | _ \<Rightarrow> map item_id its)"
  by (cases a) (simp_all add: comp_def)

section \<open>The ids of the item log\<close>

lemma item_ids_removeItem [simp]:
  "map item_id (store_items (snd (priv_removeItem item cb w))) = map item_id (store_items w)"
  by (cases item) (simp_all add: priv_removeItem_def Let_def item_ids_reducer)

lemma item_ids_removeActiveItems [simp]:
  "map item_id (store_items (removeActiveItems x w)) = map item_id (store_items w)"
  unfolding removeActiveItems_def
  by (rule fold_preserves [where P = "\<lambda>s. map item_id (store_items s) = map item_id (store_items w)"])
     simp_all

lemma item_ids_removeSelectedItems [simp]:
  "map item_id (store_items (removeSelectedItems w)) = map item_id (store_items w)"
  unfolding removeSelectedItems_def
  by (rule fold_preserves [where P = "\<lambda>s. map item_id (store_items s) = map item_id (store_items w)"])
     simp_all

lemma item_ids_selectItem [simp]:
  "map item_id (store_items (selectItem item w)) = map item_id (store_items w)"
  by (cases item) (simp_all add: selectItem_def item_ids_reducer)

lemma item_ids_highlightAll [simp]:
  "map item_id (store_items (highlightAll w)) = map item_id (store_items w)"
  unfolding highlightAll_def
  by (rule fold_preserves [where P = "\<lambda>s. map item_id (store_items s) = map item_id (store_items w)"])
     simp_all

lemma item_ids_addItem:
  "map item_id (store_items (priv_addItem v l c cb w)) =
     map item_id (store_items w) @ [int (length (store_items w)) + 1]"
  by (simp add: priv_addItem_def Let_def getItems_def item_ids_reducer)

lemma ids_ok_same:
  assumes "ids_ok w" and "map item_id (store_items w') = map item_id (store_items w)"
  shows "ids_ok w'"
proof -
  have "length (store_items w') = length (store_items w)"
    using assms(2) by (metis length_map)
  with assms show ?thesis by (simp only: ids_ok_def)
qed

lemma ids_ok_append:
  assumes "ids_ok w"
    and "map item_id (store_items w') =
         map item_id (store_items w) @ [int (length (store_items w)) + 1]"
  shows "ids_ok w'"
proof -
  have "length (map item_id (store_items w')) = Suc (length (store_items w))"
    by (simp only: assms(2)) simp
  then have l: "length (store_items w') = Suc (length (store_items w))" by simp
  have "map int [1..<Suc (Suc (length (store_items w)))] =
        map int [1..<Suc (length (store_items w))] @ [int (length (store_items w)) + 1]"
    by simp
  with assms l show ?thesis by (simp only: ids_ok_def)
qed

lemma ids_ok_addItem: "ids_ok w \<Longrightarrow> ids_ok (priv_addItem v l c cb w)"
  by (rule ids_ok_append [OF _ item_ids_addItem])

lemma ids_ok_addChoice: "ids_ok w \<Longrightarrow> ids_ok (priv_addChoice s d v l g w)"
proof -
  assume ok: "ids_ok w"
  have step: "ids_ok (dispatch (AddChoice v' l' i' g' d') w)" for v' l' i' g' d'
    by (rule ids_ok_same [OF ok]) simp
  show ?thesis
    using ok by (simp add: priv_addChoice_def Let_def step ids_ok_addItem)
qed

lemma ids_ok_setValue: "ids_ok w \<Longrightarrow> ids_ok (setValue args w)"
  unfolding setValue_def
proof (rule fold_preserves [where P = ids_ok])
  fix x s assume "ids_ok s"
  then show "ids_ok (case x of
               ValueString sa \<Rightarrow>
                 if passedElement_type s \<noteq> TextInput
                 then priv_addChoice True False sa (Some sa) (Some (- 1)) s
                 else priv_addItem sa None None JUndefined s
             | ValueObject v l i \<Rightarrow>
                 if v = [] then s
                 else if passedElement_type s \<noteq> TextInput
                 then priv_addChoice True False v l (Some (- 1)) s
                 else priv_addItem v l i JUndefined s
             | ValueOther \<Rightarrow> s)"
    by (cases x) (simp_all add: ids_ok_addItem ids_ok_addChoice)
qed

lemma ids_ok_field_updates [simp]:
  "ids_ok (w\<lparr>input_value := a\<rparr>) = ids_ok w"
  "ids_ok (w\<lparr>dropdown_active := b\<rparr>) = ids_ok w"
  "ids_ok (w\<lparr>canSearch := c\<rparr>) = ids_ok w"
  "ids_ok (w\<lparr>isSearching := d\<rparr>) = ids_ok w"
  "ids_ok (w\<lparr>console_errors := e\<rparr>) = ids_ok w"
  "ids_ok (w\<lparr>subscribed := f\<rparr>) = ids_ok w"
  "ids_ok (w\<lparr>highlightPosition := g\<rparr>) = ids_ok w"
  "ids_ok (w\<lparr>passedElement_valueSet := h\<rparr>) = ids_ok w"
  by (simp_all add: ids_ok_def)

lemma ids_ok_toggleDropdown [simp]: "ids_ok (toggleDropdown w) = ids_ok w"
  by (simp add: toggleDropdown_def showDropdown_def hideDropdown_def)

lemma ids_ok_clearInput [simp]: "ids_ok (clearInput w) = ids_ok w"
  by (simp add: clearInput_def)

lemma ids_ok_render [simp]: "ids_ok (render w) = ids_ok w"
  by (simp add: ids_ok_def)

lemma ids_ok_handleEnter: "ids_ok w \<Longrightarrow> ids_ok (priv_handleEnter ai v w)"
  by (simp add: priv_handleEnter_def Let_def ids_ok_addItem)

lemma ids_ok_handleBackspace: "ids_ok w \<Longrightarrow> ids_ok (priv_handleBackspace ai w)"
proof -
  assume ok: "ids_ok w"
  have a: "ids_ok (snd (priv_removeItem it cb (w\<lparr>input_value := x\<rparr>)))" for it cb x
    by (rule ids_ok_same [OF ok]) simp
  have b: "ids_ok (removeSelectedItems (selectItem it w))" for it
    by (rule ids_ok_same [OF ok]) simp
  have c: "ids_ok (removeSelectedItems w)"
    by (rule ids_ok_same [OF ok]) simp
  show ?thesis
    using ok by (simp add: priv_handleBackspace_def Let_def a b c)
qed

lemma ids_ok_highlightAll: "ids_ok w \<Longrightarrow> ids_ok (highlightAll w)"
  by (erule ids_ok_same) simp

lemma ids_ok_dispatch_ActivateChoices: "ids_ok w \<Longrightarrow> ids_ok (dispatch (ActivateChoices b) w)"
  by (erule ids_ok_same) simp

lemma ids_ok_onKeyDown_prelude: "ids_ok w \<Longrightarrow> ids_ok (onKeyDown_prelude e w)"
  by (simp add: onKeyDown_prelude_def Let_def showDropdown_def)

lemma ids_ok_onKeyDown_switch: "ids_ok w \<Longrightarrow> ids_ok (onKeyDown_switch e ai b w)"
  by (simp add: onKeyDown_switch_def Let_def ids_ok_handleEnter ids_ok_highlightAll
        ids_ok_handleBackspace ids_ok_addItem ids_ok_dispatch_ActivateChoices
        split: option.split prod.split)

lemma ids_ok_onKeyDown: "ids_ok w \<Longrightarrow> ids_ok (priv_onKeyDown e w)"
  by (simp add: priv_onKeyDown_def ids_ok_onKeyDown_prelude ids_ok_onKeyDown_switch)

lemma ids_ok_apply_op: "ids_ok w \<Longrightarrow> ids_ok (apply_op x w)"
proof (cases x)
  case (Op_removeItem item cb)
  assume "ids_ok w"
  then show ?thesis unfolding Op_removeItem apply_op.simps by (rule ids_ok_same) simp
next
  case (Op_removeItemsByValue v)
  assume "ids_ok w"
  then show ?thesis unfolding Op_removeItemsByValue
    by (simp add: removeItemsByValue_def Let_def)
next
  case (Op_removeActiveItems y)
  assume "ids_ok w"
  then show ?thesis unfolding Op_removeActiveItems apply_op.simps by (rule ids_ok_same) simp
next
  case Op_removeSelectedItems
  assume "ids_ok w"
  then show ?thesis unfolding Op_removeSelectedItems apply_op.simps by (rule ids_ok_same) simp
next
  case Op_clearValue
  show ?thesis unfolding Op_clearValue by (simp add: clearValue_def ids_ok_def)
qed (simp_all add: ids_ok_addItem ids_ok_addChoice ids_ok_setValue ids_ok_onKeyDown)

lemma ids_ok_createInput: "ids_ok w \<Longrightarrow> ids_ok (createInput ps os w)"
proof -
  assume ok: "ids_ok w"
  have a: "ids_ok (fold (\<lambda>(sel, dis, v, html). priv_addChoice sel dis v (Some html) None) os
                     (w\<lparr>highlightPosition := 0, isSearching := False\<rparr>))"
    by (rule fold_preserves [where P = ids_ok]) (auto simp: ok ids_ok_addChoice)
  have b: "ids_ok (fold (\<lambda>arg w'. case arg of
                  ValueString s \<Rightarrow> priv_addItem s None None JUndefined w'
                | ValueObject v l i \<Rightarrow> if v = [] then w' else priv_addItem v l i JUndefined w'
                | ValueOther \<Rightarrow> w') ps w)"
    by (rule fold_preserves [where P = ids_ok])
       (auto simp: ok ids_ok_addItem split: value_arg.split)
  show ?thesis using ok a b by (simp add: createInput_def)
qed

lemma ids_ok_new_Choices: "ids_ok (new_Choices os ty pv ps popts)"
proof -
  have "ids_ok \<lparr>opts = os, passedElement_type = ty,
      passedElement_valueAttribute = pv, passedElement_valueSet = None,
                store_items = [], store_choices = [], subscribed = False,
                prevState_items = None, input_value = [], itemList_children = [],
                dropdown_active = False, dropdown_notice = None,
                canSearch = searchOptions os, currentValue = [], isSearching = False,
                highlightPosition = 0, dispatched = [], callback_calls = [],
                console_errors = []\<rparr>"
    by (simp add: ids_ok_def)
  then show ?thesis
    by (simp add: new_Choices_def Let_def ids_ok_createInput)
qed

lemma ids_ok_run: "ids_ok w \<Longrightarrow> ids_ok (fold apply_op ops w)"
  by (rule fold_preserves [where P = ids_ok]) (simp_all add: ids_ok_apply_op)

lemma ids_ok_distinct: "ids_ok w \<Longrightarrow> distinct (map item_id (store_items w))"
  by (simp add: ids_ok_def distinct_map inj_on_def)

lemma ids_ok_sorted: "ids_ok w \<Longrightarrow> sorted_wrt (<) (map item_id (store_items w))"
  by (simp add: ids_ok_def sorted_wrt_map sorted_wrt_upt del: upt_Suc)

text \<open>
  Claim C1. Whatever additions and removals the widget performs after its construction,
  the ids of the item log, active and removed entries alike, are \<open>1, 2, ..., n\<close> in the
  order of addition: pairwise distinct and strictly increasing.
\<close>

theorem item_ids_unique_increasing:
  "map item_id (store_items (run ops (new_Choices os ty pv ps popts))) =
     map int [1..<Suc (length (store_items (run ops (new_Choices os ty pv ps popts))))]
   \<and> distinct (map item_id (store_items (run ops (new_Choices os ty pv ps popts))))
   \<and> sorted_wrt (<) (map item_id (store_items (run ops (new_Choices os ty pv ps popts))))"
proof -
  have ok: "ids_ok (run ops (new_Choices os ty pv ps popts))"
    unfolding run_def by (rule ids_ok_run [OF ids_ok_new_Choices])
  from ok have "map item_id (store_items (run ops (new_Choices os ty pv ps popts))) =
     map int [1..<Suc (length (store_items (run ops (new_Choices os ty pv ps popts))))]"
    by (simp only: ids_ok_def)
  with ids_ok_distinct [OF ok] ids_ok_sorted [OF ok] show ?thesis by blast
qed

theorem item_ids_unique_increasing_witness:
  "map item_id (store_items
     (run [Op_input ''a'', Op_keyDown enter_key, Op_addItem ''b'' None None JUndefined,
           Op_removeActiveItems None, Op_setValue [ValueString ''c'']]
          (new_Choices defaultOptions TextInput [] [] []))) = [1, 2, 3]"
proof -
  have len: "length (store_items
     (run [Op_input ''a'', Op_keyDown enter_key, Op_addItem ''b'' None None JUndefined,
           Op_removeActiveItems None, Op_setValue [ValueString ''c'']]
          (new_Choices defaultOptions TextInput [] [] []))) = 3"
    by code_simp
  show ?thesis
    using item_ids_unique_increasing
      [of "[Op_input ''a'', Op_keyDown enter_key, Op_addItem ''b'' None None JUndefined,
            Op_removeActiveItems None, Op_setValue [ValueString ''c'']]"
          defaultOptions TextInput "[]" "[]" "[]"]
    by (simp add: len upt_rec)
qed

section \<open>Removing items\<close>

lemma item_id_deactivate [simp]: "item_id (deactivate S x) = item_id x"
  by (simp add: deactivate_def)

lemma deactivate_twice: "deactivate S (deactivate T x) = deactivate (S \<union> T) x"
  by (simp add: deactivate_def)

lemma store_items_removeItem:
  "store_items (snd (priv_removeItem (Some it) cb w)) =
     map (deactivate {item_id it}) (store_items w)"
  by (simp add: priv_removeItem_def Let_def deactivate_def)

lemma store_items_fold_remove:
  "store_items (fold (\<lambda>it w'. if P it then snd (priv_removeItem (Some it) JUndefined w') else w') L w) =
     map (deactivate (item_id ` {it \<in> set L. P it})) (store_items w)"
proof (induction L arbitrary: w)
  case Nil
  show ?case by (simp add: deactivate_def map_idI)
next
  case (Cons a L)
  have eq: "item_id ` {it. (it = a \<or> it \<in> set L) \<and> P it} =
            (if P a then {item_id a} else {}) \<union> item_id ` {it \<in> set L. P it}"
    by auto
  show ?case
    by (simp add: Cons.IH store_items_removeItem deactivate_twice comp_def eq Un_commute)
qed

lemma store_items_removeActiveItems:
  "store_items (removeActiveItems excl w) =
     map (deactivate (item_id ` {it \<in> set (store_items w).
                                  item_active it \<and> excl \<noteq> Some (item_id it)}))
         (store_items w)"
proof -
  have "{it \<in> set (getItemsFilteredByActive w). item_active it \<and> excl \<noteq> Some (item_id it)} =
        {it \<in> set (store_items w). item_active it \<and> excl \<noteq> Some (item_id it)}"
    by (auto simp: getItemsFilteredByActive_def)
  then show ?thesis
    unfolding removeActiveItems_def by (simp only: store_items_fold_remove)
qed


lemma ids_ok_fresh:
  assumes "ids_ok w" and "x \<in> set (store_items w)"
  shows "item_id x \<noteq> int (length (store_items w)) + 1"
proof -
  have "item_id x \<in> set (map item_id (store_items w))" using assms(2) by simp
  then have "item_id x \<in> set (map int [1..<Suc (length (store_items w))])"
    using assms(1) by (simp only: ids_ok_def)
  then show ?thesis by auto
qed

text \<open>
  Claim C9. \<open>removeItemsByValue\<close> hands back nothing for every argument, a non-empty
  string included, and leaves the store as it was: no item is removed, no action is
  dispatched, no callback runs.
\<close>

theorem removeItemsByValue_returns_early:
  "fst (removeItemsByValue v w) = ReturnUndefined
   \<and> store_items (snd (removeItemsByValue v w)) = store_items w
   \<and> store_choices (snd (removeItemsByValue v w)) = store_choices w
   \<and> dispatched (snd (removeItemsByValue v w)) = dispatched w
   \<and> callback_calls (snd (removeItemsByValue v w)) = callback_calls w"
  by (simp add: removeItemsByValue_def Let_def)

theorem removeItemsByValue_returns_early_witness:
  "fst (removeItemsByValue (JString ''a'') w_ab) = ReturnUndefined
   \<and> map item_value (filter item_active
         (store_items (snd (removeItemsByValue (JString ''a'') w_ab)))) = [''a'', ''b'']"
proof -
  have "map item_value (filter item_active (store_items w_ab)) = [''a'', ''b'']"
    by code_simp
  with removeItemsByValue_returns_early [of "JString ''a''" w_ab] show ?thesis by simp
qed

text \<open>
  Claim C10, as amended. For every item object given to \<open>_removeItem\<close>, the
  \<open>removeItem\<close> action is dispatched and deactivates the entries with the item's id,
  and no callback is ever invoked. The method hands back nothing when a callback is
  configured (any truthy value, as the default is), and the instance when the callback
  is a falsy value, since the \<open>return\<close> sits inside \<open>if(callback)\<close>.
\<close>

theorem removeItem_never_calls_back:
  "dispatched (snd (priv_removeItem (Some it) cb w)) =
     dispatched w @ [RemoveItem (item_id it) (item_choiceId it)]
   \<and> store_items (snd (priv_removeItem (Some it) cb w)) =
       map (\<lambda>x. if item_id x = item_id it then x\<lparr>item_active := False\<rparr> else x) (store_items w)
   \<and> callback_calls (snd (priv_removeItem (Some it) cb w)) = callback_calls w
   \<and> fst (priv_removeItem (Some it) cb w) =
       (if truthy (if cb = JUndefined then callbackOnRemoveItem (opts w) else cb)
        then ReturnUndefined else ReturnThis)"
  by (simp add: priv_removeItem_def Let_def)

theorem removeItem_never_calls_back_counterexample:
  "callbackOnRemoveItem (opts w_no_callback) = JNull
   \<and> map item_value (store_items w_no_callback) = [''a'']
   \<and> fst (priv_removeItem (Some (hd (store_items w_no_callback))) JUndefined w_no_callback) =
       ReturnThis"
  by code_simp

theorem removeItem_never_calls_back_witness:
  "truthy (callbackOnRemoveItem (opts w_ab))
   \<and> fst (priv_removeItem (Some (hd (store_items w_ab))) JUndefined w_ab) = ReturnUndefined
   \<and> callback_calls (snd (priv_removeItem (Some (hd (store_items w_ab))) JUndefined w_ab)) =
       callback_calls w_ab
   \<and> map item_active
       (store_items (snd (priv_removeItem (Some (hd (store_items w_ab))) JUndefined w_ab))) =
       [False, True]"
proof -
  have t: "truthy (callbackOnRemoveItem (opts w_ab))" by code_simp
  have h: "item_id (hd (store_items w_ab)) = 1" by code_simp
  have m: "map item_active (map (\<lambda>x. if item_id x = 1 then x\<lparr>item_active := False\<rparr> else x)
             (store_items w_ab)) = [False, True]"
    by code_simp
  from removeItem_never_calls_back [of "hd (store_items w_ab)" JUndefined w_ab] t h m
  show ?thesis by simp
qed

section \<open>Adding items\<close>

lemma store_items_addItem:
  "store_items (priv_addItem v l c cb w) =
     (if passedElement_type w = SelectOne
      then map (deactivate (item_id `
                  {it \<in> set (store_items w @
                               [new_item (opts w) v l c (int (length (store_items w)) + 1)]).
                   item_active it \<and> Some (int (length (store_items w)) + 1) \<noteq> Some (item_id it)}))
               (store_items w @ [new_item (opts w) v l c (int (length (store_items w)) + 1)])
      else store_items w @ [new_item (opts w) v l c (int (length (store_items w)) + 1)])"
  by (simp add: priv_addItem_def Let_def getItems_def store_items_removeActiveItems new_item_def)

lemma new_item_fields [simp]:
  "item_id (new_item os v l c n) = n" "item_active (new_item os v l c n)"
  "\<not> item_selected (new_item os v l c n)"
  by (simp_all add: new_item_def)

lemma store_items_addItem_SelectOne:
  assumes "passedElement_type w = SelectOne" and "ids_ok w"
  shows "store_items (priv_addItem v l c cb w) =
           map (\<lambda>x. x\<lparr>item_active := False\<rparr>) (store_items w)
           @ [new_item (opts w) v l c (int (length (store_items w)) + 1)]"
proof -
  let ?n = "int (length (store_items w)) + 1"
  let ?new = "new_item (opts w) v l c ?n"
  let ?R = "item_id ` {it \<in> set (store_items w @ [?new]).
                        item_active it \<and> Some ?n \<noteq> Some (item_id it)}"
  have fresh: "item_id x \<noteq> ?n" if "x \<in> set (store_items w)" for x
    using ids_ok_fresh [OF assms(2) that] .
  have old: "deactivate ?R x = x\<lparr>item_active := False\<rparr>" if "x \<in> set (store_items w)" for x
  proof (cases "item_active x")
    case True
    then have "item_id x \<in> ?R" using that fresh [OF that] by force
    then show ?thesis by (simp add: deactivate_def)
  next
    case False
    then show ?thesis by (simp add: deactivate_def)
  qed
  have "?n \<notin> ?R" by auto
  then have new: "deactivate ?R ?new = ?new" by (simp add: deactivate_def)
  have "store_items (priv_addItem v l c cb w) = map (deactivate ?R) (store_items w @ [?new])"
    using assms(1) by (simp add: store_items_addItem)
  also have "\<dots> = map (\<lambda>x. x\<lparr>item_active := False\<rparr>) (store_items w) @ [?new]"
    using old new by simp
  finally show ?thesis .
qed

text \<open>
  Claim C4. In a select-one widget whose log carries the ids \<open>1, ..., n\<close> (as every
  log the widget builds does), adding an item deactivates every entry that was in the
  log and appends the new one, so that exactly one item, the new one, is active.
\<close>

theorem select_one_add_leaves_one_active:
  assumes "passedElement_type w = SelectOne" and "ids_ok w"
  shows "store_items (priv_addItem v l c cb w) =
           map (\<lambda>x. x\<lparr>item_active := False\<rparr>) (store_items w)
           @ [new_item (opts w) v l c (int (length (store_items w)) + 1)]
         \<and> getItemsFilteredByActive (priv_addItem v l c cb w) =
             [new_item (opts w) v l c (int (length (store_items w)) + 1)]
         \<and> length (getItemsFilteredByActive (priv_addItem v l c cb w)) = 1"
proof -
  have "filter item_active (map (\<lambda>x. x\<lparr>item_active := False\<rparr>) (store_items w)) = []"
    by (simp add: filter_empty_conv)
  then show ?thesis
    by (simp add: store_items_addItem_SelectOne [OF assms] getItemsFilteredByActive_def)
qed

theorem select_one_add_leaves_one_active_witness:
  "passedElement_type w_one = SelectOne \<and> ids_ok w_one
   \<and> map item_value (getItemsFilteredByActive w_one) = [''x'']
   \<and> map item_value (getItemsFilteredByActive
         (priv_addItem ''y'' (Some ''Y'') (Some 2) JUndefined w_one)) = [''y'']
   \<and> map item_active (store_items
         (priv_addItem ''y'' (Some ''Y'') (Some 2) JUndefined w_one)) = [False, True]"
proof -
  have t: "passedElement_type w_one = SelectOne" by code_simp
  have ok: "ids_ok w_one" unfolding w_one_def by (rule ids_ok_new_Choices)
  have a: "map item_value (getItemsFilteredByActive w_one) = [''x'']" by code_simp
  have n: "length (store_items w_one) = 1" by code_simp
  have o: "opts w_one = defaultOptions" by code_simp
  have v: "item_value (new_item defaultOptions ''y'' (Some ''Y'') (Some 2) 2) = ''y''"
    by code_simp
  from select_one_add_leaves_one_active [OF t ok, of "''y''" "Some ''Y''" "Some 2" JUndefined]
  show ?thesis using t ok a n o v by (simp add: comp_def map_replicate_const)
qed

section \<open>The page follows the store\<close>


lemma view_synced_dispatch: "view_synced w \<Longrightarrow> view_synced (dispatch a w)"
  by (auto simp add: view_synced_def dispatch_def render_def Let_def getItemsFilteredByActive_def)

lemma view_synced_field_updates [simp]:
  "view_synced (w\<lparr>input_value := a\<rparr>) = view_synced w"
  "view_synced (w\<lparr>dropdown_active := b\<rparr>) = view_synced w"
  "view_synced (w\<lparr>canSearch := c\<rparr>) = view_synced w"
  "view_synced (w\<lparr>isSearching := d\<rparr>) = view_synced w"
  "view_synced (w\<lparr>console_errors := e\<rparr>) = view_synced w"
  "view_synced (w\<lparr>highlightPosition := g\<rparr>) = view_synced w"
  "view_synced (w\<lparr>callback_calls := h\<rparr>) = view_synced w"
  "view_synced (w\<lparr>dropdown_notice := i\<rparr>) = view_synced w"
  "view_synced (w\<lparr>currentValue := j\<rparr>) = view_synced w"
  "view_synced (w\<lparr>passedElement_valueSet := k\<rparr>) = view_synced w"
  by (simp_all add: view_synced_def getItemsFilteredByActive_def)

lemma view_synced_removeItem: "view_synced w \<Longrightarrow> view_synced (snd (priv_removeItem item cb w))"
  by (cases item) (simp_all add: priv_removeItem_def Let_def view_synced_dispatch)

lemma view_synced_removeActiveItems: "view_synced w \<Longrightarrow> view_synced (removeActiveItems x w)"
  unfolding removeActiveItems_def
  by (rule fold_preserves [where P = view_synced]) (simp_all add: view_synced_removeItem)

lemma view_synced_removeSelectedItems: "view_synced w \<Longrightarrow> view_synced (removeSelectedItems w)"
  unfolding removeSelectedItems_def
  by (rule fold_preserves [where P = view_synced]) (simp_all add: view_synced_removeItem)

lemma view_synced_selectItem: "view_synced w \<Longrightarrow> view_synced (selectItem item w)"
  by (cases item) (simp_all add: selectItem_def view_synced_dispatch)

lemma view_synced_highlightAll: "view_synced w \<Longrightarrow> view_synced (highlightAll w)"
  unfolding highlightAll_def
  by (rule fold_preserves [where P = view_synced]) (simp_all add: view_synced_selectItem)

lemma view_synced_addItem: "view_synced w \<Longrightarrow> view_synced (priv_addItem v l c cb w)"
  by (simp add: priv_addItem_def Let_def view_synced_dispatch view_synced_removeActiveItems)

lemma view_synced_addChoice: "view_synced w \<Longrightarrow> view_synced (priv_addChoice s d v l g w)"
  by (simp add: priv_addChoice_def Let_def view_synced_dispatch view_synced_addItem)

lemma view_synced_setValue: "view_synced w \<Longrightarrow> view_synced (setValue args w)"
  unfolding setValue_def
proof (rule fold_preserves [where P = view_synced])
  fix x s assume "view_synced s"
  then show "view_synced (case x of
               ValueString sa \<Rightarrow>
                 if passedElement_type s \<noteq> TextInput
                 then priv_addChoice True False sa (Some sa) (Some (- 1)) s
                 else priv_addItem sa None None JUndefined s
             | ValueObject v l i \<Rightarrow>
                 if v = [] then s
                 else if passedElement_type s \<noteq> TextInput
                 then priv_addChoice True False v l (Some (- 1)) s
                 else priv_addItem v l i JUndefined s
             | ValueOther \<Rightarrow> s)"
    by (cases x) (simp_all add: view_synced_addItem view_synced_addChoice)
qed

lemma view_synced_toggleDropdown [simp]: "view_synced (toggleDropdown w) = view_synced w"
  by (simp add: toggleDropdown_def showDropdown_def hideDropdown_def)

lemma view_synced_clearInput [simp]: "view_synced (clearInput w) = view_synced w"
  by (simp add: clearInput_def)

lemma view_synced_handleEnter: "view_synced w \<Longrightarrow> view_synced (priv_handleEnter ai v w)"
  by (simp add: priv_handleEnter_def Let_def view_synced_addItem)

lemma view_synced_handleBackspace: "view_synced w \<Longrightarrow> view_synced (priv_handleBackspace ai w)"
  by (simp add: priv_handleBackspace_def Let_def view_synced_removeItem
        view_synced_removeSelectedItems view_synced_selectItem)

lemma view_synced_onKeyDown_prelude: "view_synced w \<Longrightarrow> view_synced (onKeyDown_prelude e w)"
  by (simp add: onKeyDown_prelude_def Let_def showDropdown_def)

lemma view_synced_onKeyDown_switch: "view_synced w \<Longrightarrow> view_synced (onKeyDown_switch e ai b w)"
  by (simp add: onKeyDown_switch_def Let_def view_synced_handleEnter view_synced_highlightAll
        view_synced_handleBackspace view_synced_addItem view_synced_dispatch
        split: option.split prod.split)

lemma view_synced_onKeyDown: "view_synced w \<Longrightarrow> view_synced (priv_onKeyDown e w)"
  by (simp add: priv_onKeyDown_def view_synced_onKeyDown_prelude view_synced_onKeyDown_switch)

lemma view_synced_apply_op: "view_synced w \<Longrightarrow> view_synced (apply_op x w)"
  by (cases x)
     (simp_all add: view_synced_addItem view_synced_addChoice view_synced_setValue
        view_synced_onKeyDown view_synced_removeItem view_synced_removeActiveItems
        view_synced_removeSelectedItems removeItemsByValue_def Let_def clearValue_def
        view_synced_dispatch)

lemma view_synced_run: "view_synced w \<Longrightarrow> view_synced (run ops w)"
  unfolding run_def
  by (rule fold_preserves [where P = view_synced]) (simp_all add: view_synced_apply_op)



lemma unrendered_field_updates [simp]:
  "unrendered (w\<lparr>console_errors := e\<rparr>) = unrendered w"
  "unrendered (w\<lparr>callback_calls := h\<rparr>) = unrendered w"
  "unrendered (w\<lparr>highlightPosition := g, isSearching := d\<rparr>) = unrendered w"
  by (simp_all add: unrendered_def)







section \<open>The Enter key\<close>

lemma join_nonempty: "x \<in> set xs \<Longrightarrow> x \<noteq> [] \<Longrightarrow> join d xs \<noteq> []"
  by (induction d xs rule: join.induct) auto



lemma handleEnter_regex:
  "regexFilter (opts w) = Some p \<Longrightarrow> \<not> regexp_test p v \<Longrightarrow> priv_handleEnter ai v w = w"
  by (simp add: priv_handleEnter_def priv_regexFilter_def)

lemma handleEnter_adds:
  assumes "addItems (opts w)"
    and "\<not> (maxItemCount (opts w) > 0 \<and> maxItemCount (opts w) \<le> int (length (itemList_children w)))"
    and "duplicateItems (opts w) \<or> passedElement_value w = [] \<or> \<not> list_ex (\<lambda>it. item_value it = v) ai"
    and "regexFilter (opts w) = None \<or> (v \<noteq> [] \<and> regexp_test (the (regexFilter (opts w))) v)"
  shows "priv_handleEnter ai v w = clearInput (priv_addItem v None None JUndefined (toggleDropdown w))"
  using assms by (auto simp add: priv_handleEnter_def priv_regexFilter_def)



lemma store_items_toggleDropdown [simp]: "store_items (toggleDropdown w) = store_items w"
  by (simp add: toggleDropdown_def showDropdown_def hideDropdown_def)

lemma store_items_clearInput [simp]: "store_items (clearInput w) = store_items w"
  by (simp add: clearInput_def)

lemma fields_toggleDropdown [simp]:
  "opts (toggleDropdown w) = opts w" "passedElement_type (toggleDropdown w) = passedElement_type w"
  by (simp_all add: toggleDropdown_def showDropdown_def hideDropdown_def)

lemma fields_onKeyDown_prelude [simp]:
  "store_items (onKeyDown_prelude e w) = store_items w"
  "opts (onKeyDown_prelude e w) = opts w"
  "passedElement_type (onKeyDown_prelude e w) = passedElement_type w"
  "passedElement_value (onKeyDown_prelude e w) = passedElement_value w"
  "itemList_children (onKeyDown_prelude e w) = itemList_children w"
  "input_value (onKeyDown_prelude e w) = input_value w"
  by (simp_all add: onKeyDown_prelude_def Let_def showDropdown_def passedElement_value_def
        split: option.split)

lemma onKeyDown_enter_text:
  assumes "target_is_input e" and "keyCode e = 13" and "passedElement_type w = TextInput"
    and "highlighted e = None"
  shows "priv_onKeyDown e w =
           (if input_value w \<noteq> []
            then priv_handleEnter (getItemsFilteredByActive w) (input_value w) (onKeyDown_prelude e w)
            else onKeyDown_prelude e w)"
  using assms by (simp add: priv_onKeyDown_def onKeyDown_switch_def Let_def)

lemma set_join: "x \<in> set xs \<Longrightarrow> set x \<subseteq> set (join d xs)"
  by (induction d xs rule: join.induct) auto

text \<open>
  On a text input whose page shows the store and whose value nobody has set, the
  \<open>value\<close> property is not empty as soon as some active item has a character other
  than a line break in its value.
\<close>

lemma passedElement_value_rendered:
  assumes "passedElement_type w = TextInput" and "view_synced w"
    and "passedElement_valueSet w = None"
    and "it \<in> set (getItemsFilteredByActive w)"
    and "c \<in> set (item_value it)" and "c \<noteq> CHR 0x0A" and "c \<noteq> CHR 0x0D"
  shows "passedElement_value w \<noteq> []"
proof -
  have "item_value it \<in> set (getItemsReducedToValues (getItemsFilteredByActive w))"
    using assms(4) by (simp add: getItemsReducedToValues_def)
  then have "c \<in> set (join (delimiter (opts w))
                        (getItemsReducedToValues (getItemsFilteredByActive w)))"
    using set_join assms(5) by blast
  then have "c \<in> set (passedElement_valueAttribute w)"
    using assms(1,2) by (simp add: view_synced_def)
  then have "c \<in> set (passedElement_value w)"
    using assms(3,6,7) by (simp add: passedElement_value_def strip_newlines_def)
  then show ?thesis by auto
qed







lemma getItemsFilteredByActive_clearInput [simp]:
  "getItemsFilteredByActive (clearInput w) = getItemsFilteredByActive w"
  by (simp add: getItemsFilteredByActive_def)

lemma getItemsFilteredByActive_toggleDropdown [simp]:
  "getItemsFilteredByActive (toggleDropdown w) = getItemsFilteredByActive w"
  by (simp add: getItemsFilteredByActive_def)


lemma fields_render_dropdown [simp]:
  "dropdown_notice (render w) = dropdown_notice w" "dropdown_active (render w) = dropdown_active w"
  by (simp_all add: render_def Let_def)

lemma fields_dispatch_dropdown [simp]:
  "dropdown_notice (dispatch a w) = dropdown_notice w" "dropdown_active (dispatch a w) = dropdown_active w"
  by (simp_all add: dispatch_def Let_def)

lemma fields_onKeyUp_search_dropdown [simp]:
  "dropdown_notice (onKeyUp_search fs e w) = dropdown_notice w"
  "dropdown_active (onKeyUp_search fs e w) = dropdown_active w"
  by (simp_all add: onKeyUp_search_def Let_def)





lemma digits_only_abc: "\<not> regexp_test digits_only ''abc''"
  by code_simp

lemma digits_only_123: "regexp_test digits_only ''123''"
  by code_simp

lemma trim_123: "trim ''123'' = ''123''"
  by code_simp

text \<open>
  Claim C5, as amended. On a text input with the filter \<open>^[0-9]+$\<close>, the key-down of
  Enter with the value \<open>abc\<close> leaves the item log unchanged. With the value \<open>123\<close>
  it appends exactly one item, whose value is \<open>123\<close>, when items may be added, the
  limit is not reached, the duplicate rule does not block the value and neither a
  prepended nor an appended value is configured. For every filter and value, a mismatch
  makes the Enter handler leave the widget as it was: no item, no notice, no message.
\<close>

theorem digits_filter_scenario:
  assumes "regexFilter (opts w) = Some digits_only" and "passedElement_type w = TextInput"
    and "target_is_input e" and "keyCode e = 13" and "highlighted e = None"
  shows "(input_value w = ''abc'' \<longrightarrow> store_items (priv_onKeyDown e w) = store_items w)
       \<and> (input_value w = ''123'' \<and> addItems (opts w)
          \<and> \<not> (0 < maxItemCount (opts w)
                \<and> maxItemCount (opts w) \<le> int (length (itemList_children w)))
          \<and> (duplicateItems (opts w) \<or> passedElement_value w = []
              \<or> \<not> list_ex (\<lambda>it. item_value it = ''123'') (getItemsFilteredByActive w))
          \<and> prependValue (opts w) = None \<and> appendValue (opts w) = None
            \<longrightarrow> store_items (priv_onKeyDown e w) =
                  store_items w @
                  [\<lparr>item_id = int (length (store_items w)) + 1, item_value = ''123'',
                    item_label = ''123'', item_active = True, item_selected = False,
                    item_choiceId = - 1\<rparr>])
       \<and> (regexFilter (opts w') = Some p \<and> \<not> regexp_test p v
            \<longrightarrow> priv_handleEnter ai v w' = w')"
proof -
  let ?w2 = "onKeyDown_prelude e w"
  have a: "store_items (priv_onKeyDown e w) = store_items w" if "input_value w = ''abc''"
  proof -
    have "priv_handleEnter (getItemsFilteredByActive w) ''abc'' ?w2 = ?w2"
      by (rule handleEnter_regex [where p = digits_only]) (simp_all add: assms(1) digits_only_abc)
    then show ?thesis using that assms by (simp add: onKeyDown_enter_text)
  qed
  have b: "store_items (priv_onKeyDown e w) =
             store_items w @
             [\<lparr>item_id = int (length (store_items w)) + 1, item_value = ''123'',
               item_label = ''123'', item_active = True, item_selected = False,
               item_choiceId = - 1\<rparr>]"
    if h: "input_value w = ''123''" "addItems (opts w)"
      "\<not> (0 < maxItemCount (opts w)
          \<and> maxItemCount (opts w) \<le> int (length (itemList_children w)))"
      "duplicateItems (opts w) \<or> passedElement_value w = []
         \<or> \<not> list_ex (\<lambda>it. item_value it = ''123'') (getItemsFilteredByActive w)"
      "prependValue (opts w) = None" "appendValue (opts w) = None"
  proof -
    have "priv_handleEnter (getItemsFilteredByActive w) ''123'' ?w2 =
            clearInput (priv_addItem ''123'' None None JUndefined (toggleDropdown ?w2))"
      by (rule handleEnter_adds) (use h assms(1) digits_only_123 in simp_all)
    then have "store_items (priv_onKeyDown e w) =
                 store_items (priv_addItem ''123'' None None JUndefined (toggleDropdown ?w2))"
      using h(1) assms by (simp add: onKeyDown_enter_text)
    also have "\<dots> = store_items w @ [new_item (opts w) ''123'' None None (int (length (store_items w)) + 1)]"
      using assms(2) by (simp add: store_items_addItem)
    also have "new_item (opts w) ''123'' None None (int (length (store_items w)) + 1) =
                 \<lparr>item_id = int (length (store_items w)) + 1, item_value = ''123'',
                  item_label = ''123'', item_active = True, item_selected = False,
                  item_choiceId = - 1\<rparr>"
      using h(5,6) by (simp add: new_item_def trim_123)
    finally show ?thesis .
  qed
  have c: "priv_handleEnter ai v w' = w'" if "regexFilter (opts w') = Some p" "\<not> regexp_test p v"
    using that by (rule handleEnter_regex)
  show ?thesis using a b c by blast
qed

theorem digits_filter_scenario_counterexample:
  "regexFilter (opts w_digits_full) = Some digits_only
   \<and> passedElement_type w_digits_full = TextInput
   \<and> map item_value (store_items w_digits_full) = [''7'']
   \<and> map item_value (store_items (priv_onKeyDown enter_key (w_digits_full\<lparr>input_value := ''123''\<rparr>)))
       = [''7'']
   \<and> regexFilter (opts w_digits_prefixed) = Some digits_only
   \<and> map item_value (store_items (priv_onKeyDown enter_key (w_digits_prefixed\<lparr>input_value := ''123''\<rparr>)))
       = [''#123'']"
  by code_simp

theorem digits_filter_scenario_witness:
  "store_items (priv_onKeyDown enter_key (w_digits\<lparr>input_value := ''abc''\<rparr>)) = []
   \<and> store_items (priv_onKeyDown enter_key (w_digits\<lparr>input_value := ''123''\<rparr>)) =
       [\<lparr>item_id = 1, item_value = ''123'', item_label = ''123'', item_active = True,
         item_selected = False, item_choiceId = - 1\<rparr>]
   \<and> priv_handleEnter [] ''12a'' w_digits = w_digits"
proof -
  have r: "regexFilter (opts (w_digits\<lparr>input_value := x\<rparr>)) = Some digits_only" for x
    by (simp add: w_digits_def new_Choices_def createInput_def render_def Let_def defaultOptions_def)
  have r0: "regexFilter (opts w_digits) = Some digits_only" using r [of "[]"] by simp
  have t: "passedElement_type (w_digits\<lparr>input_value := x\<rparr>) = TextInput" for x
    by (simp add: w_digits_def new_Choices_def createInput_def render_def Let_def)
  have e: "target_is_input enter_key" "keyCode enter_key = 13" "highlighted enter_key = None"
    by (simp_all add: enter_key_def)
  have s: "store_items w_digits = []" by code_simp
  have o: "addItems (opts w_digits)" "maxItemCount (opts w_digits) = - 1"
    "duplicateItems (opts w_digits)" "prependValue (opts w_digits) = None"
    "appendValue (opts w_digits) = None"
    by code_simp+
  have miss: "\<not> regexp_test digits_only ''12a''" by code_simp
  from digits_filter_scenario [OF r t e, of "''abc''"]
  have a: "store_items (priv_onKeyDown enter_key (w_digits\<lparr>input_value := ''abc''\<rparr>)) = []"
    using s by simp
  from digits_filter_scenario [OF r t e, of "''123''"]
  have b: "store_items (priv_onKeyDown enter_key (w_digits\<lparr>input_value := ''123''\<rparr>)) =
       [\<lparr>item_id = 1, item_value = ''123'', item_label = ''123'', item_active = True,
         item_selected = False, item_choiceId = - 1\<rparr>]"
    using s o by simp
  from digits_filter_scenario [OF r t e, of "[]" w_digits digits_only "''12a''" "[]"]
  have c: "priv_handleEnter [] ''12a'' w_digits = w_digits"
    using r0 miss by blast
  show ?thesis using a b c by simp
qed

section \<open>Backspace and Delete\<close>





lemma input_value_render [simp]: "input_value (render w) = input_value w"
  by (simp add: render_def Let_def)

lemma input_value_dispatch [simp]: "input_value (dispatch a w) = input_value w"
  by (simp add: dispatch_def Let_def)

lemma input_value_removeItem [simp]:
  "input_value (snd (priv_removeItem item cb w)) = input_value w"
  by (cases item) (simp_all add: priv_removeItem_def Let_def)

lemma input_value_removeSelectedItems [simp]:
  "input_value (removeSelectedItems w) = input_value w"
  unfolding removeSelectedItems_def
  by (rule fold_preserves [where P = "\<lambda>s. input_value s = input_value w"]) simp_all

lemma input_value_selectItem [simp]: "input_value (selectItem item w) = input_value w"
  by (cases item) (simp_all add: selectItem_def)










section \<open>Searching\<close>

lemma fields_onKeyUp_notice [simp]:
  "dispatched (onKeyUp_notice w) = dispatched w"
  "store_choices (onKeyUp_notice w) = store_choices w"
  "canSearch (onKeyUp_notice w) = canSearch w"
  "input_value (onKeyUp_notice w) = input_value w"
  "currentValue (onKeyUp_notice w) = currentValue w"
  by (simp_all add: onKeyUp_notice_def Let_def showDropdown_def hideDropdown_def)

lemma store_choices_render [simp]: "store_choices (render w) = store_choices w"
  by (simp add: render_def Let_def)

lemma store_choices_dispatch [simp]:
  "store_choices (dispatch a w) = choices_reducer (store_choices w) a"
  by (simp add: dispatch_def Let_def)

lemma isSearching_render [simp]: "isSearching (render w) = isSearching w"
  by (simp add: render_def Let_def)

lemma isSearching_dispatch [simp]: "isSearching (dispatch a w) = isSearching w"
  by (simp add: dispatch_def Let_def)

lemma dispatched_onKeyUp_search:
  "dispatched (onKeyUp_search fs e w) =
     dispatched w @
     (if canSearch w \<and> activeElement_is_input e then
        (if input_value w \<noteq> [] \<and> store_choices w \<noteq> [] \<and> keyString_test (keyCode e) then
           (if 1 \<le> length (trim (input_value w))
               \<and> trim (input_value w) \<noteq> trim (currentValue w) @ '' ''
            then [FilterChoices (fs (getChoicesFiltedBySelectable w) (trim (input_value w)))]
            else [])
         else if list_ex (\<lambda>ch. choice_active ch \<noteq> True) (store_choices w)
         then [ActivateChoices False] else [])
      else [])"
  by (simp add: onKeyUp_search_def Let_def getChoices_def getChoicesFiltedBySelectable_def)

lemma onKeyUp_search_reset:
  assumes "canSearch w" and "activeElement_is_input e"
    and "\<not> (input_value w \<noteq> [] \<and> store_choices w \<noteq> [] \<and> keyString_test (keyCode e))"
    and "\<exists>ch \<in> set (store_choices w). \<not> choice_active ch"
  shows "onKeyUp_search fs e w = dispatch (ActivateChoices False) (w\<lparr>isSearching := False\<rparr>)"
proof -
  have "list_ex (\<lambda>ch. choice_active ch \<noteq> True) (store_choices w)"
    using assms(4) by (simp add: list_ex_iff)
  then show ?thesis
    using assms(1,2,3) by (auto simp add: onKeyUp_search_def Let_def getChoices_def)
qed

text \<open>
  The test of the key reads the key code as the code of a character. It holds of the
  codes of the letter and digit keys and of the space bar, and also of the codes of F2
  (113, the code of \<open>q\<close>) and of Insert (45, the code of the dash); it does not hold
  of the code of the dash key (189) nor of that of Backspace (8).
\<close>

lemma keyString_test_codes:
  "keyString_test 88 \<and> keyString_test 57 \<and> keyString_test 32
   \<and> keyString_test 113 \<and> keyString_test 45
   \<and> \<not> keyString_test 189 \<and> \<not> keyString_test 8"
  by (simp add: keyString_test_def)

text \<open>
  Claim C7, as amended. A key-up dispatches a \<open>filterChoices\<close> action only when the
  trimmed text of the input has at least one character and differs from the trimmed text
  of the last search followed by a space. When the search is enabled, the key-up comes
  from the input of the widget, which has the focus, and it does not reach the search
  while some choice is inactive, exactly one \<open>activateChoices\<close> action is
  dispatched, after which every choice is active and the widget is no longer searching.
  The key-up does not reach the search when the input is empty, when there is no choice,
  or when the character whose code is the key code of the event
  (\<open>String.fromCharCode(keyCode)\<close>) is none of \<open>a\<close> to \<open>z\<close>, \<open>A\<close> to
  \<open>Z\<close>, \<open>0\<close> to \<open>9\<close>, dash, underscore and space: the key code is
  outside 48 to 57, 65 to 90 and 97 to 122 and is none of 45, 95 and 32.
\<close>

theorem search_only_on_new_text:
  "(FilterChoices r \<in> set (drop (length (dispatched w)) (dispatched (priv_onKeyUp fs e w)))
      \<longrightarrow> 1 \<le> length (trim (input_value w))
          \<and> trim (input_value w) \<noteq> trim (currentValue w) @ '' '')
   \<and> (target_is_input e \<and> canSearch w \<and> activeElement_is_input e
      \<and> \<not> (input_value w \<noteq> [] \<and> store_choices w \<noteq> [] \<and> keyString_test (keyCode e))
      \<and> (\<exists>ch \<in> set (store_choices w). \<not> choice_active ch)
      \<longrightarrow> dispatched (priv_onKeyUp fs e w) = dispatched w @ [ActivateChoices False]
          \<and> (\<forall>ch \<in> set (store_choices (priv_onKeyUp fs e w)). choice_active ch)
          \<and> \<not> isSearching (priv_onKeyUp fs e w))"
proof -
  have a: "1 \<le> length (trim (input_value w))
           \<and> trim (input_value w) \<noteq> trim (currentValue w) @ '' ''"
    if "FilterChoices r \<in> set (drop (length (dispatched w)) (dispatched (priv_onKeyUp fs e w)))"
  proof (cases "target_is_input e")
    case False
    then show ?thesis using that by (simp add: priv_onKeyUp_def)
  next
    case True
    then show ?thesis
      using that
      by (simp add: priv_onKeyUp_def dispatched_onKeyUp_search split: if_splits)
  qed
  have b: "dispatched (priv_onKeyUp fs e w) = dispatched w @ [ActivateChoices False]
           \<and> (\<forall>ch \<in> set (store_choices (priv_onKeyUp fs e w)). choice_active ch)
           \<and> \<not> isSearching (priv_onKeyUp fs e w)"
    if h: "target_is_input e" "canSearch w" "activeElement_is_input e"
      "\<not> (input_value w \<noteq> [] \<and> store_choices w \<noteq> [] \<and> keyString_test (keyCode e))"
      "\<exists>ch \<in> set (store_choices w). \<not> choice_active ch"
  proof -
    have "onKeyUp_search fs e (onKeyUp_notice w) =
            dispatch (ActivateChoices False) ((onKeyUp_notice w)\<lparr>isSearching := False\<rparr>)"
      by (rule onKeyUp_search_reset) (use h in simp_all)
    then show ?thesis using h(1) by (simp add: priv_onKeyUp_def)
  qed
  show ?thesis using a b by blast
qed

theorem search_only_on_new_text_counterexample:
  "canSearch w_searched
   \<and> map choice_active (store_choices w_searched) = [False]
   \<and> dispatched (priv_onKeyUp no_search space_key (w_searched\<lparr>input_value := '' ''\<rparr>))
       = dispatched w_searched
   \<and> map choice_active
       (store_choices (priv_onKeyUp no_search space_key (w_searched\<lparr>input_value := '' ''\<rparr>)))
       = [False]"
  by code_simp

theorem search_only_on_new_text_witness:
  "dispatched (priv_onKeyUp no_search backspace_key (w_searched\<lparr>input_value := []\<rparr>))
     = [AddChoice ''apple'' ''Apple'' 1 (- 1) False, FilterChoices [], ActivateChoices False]
   \<and> map choice_active
       (store_choices (priv_onKeyUp no_search backspace_key (w_searched\<lparr>input_value := []\<rparr>)))
       = [True]
   \<and> 1 \<le> length (trim (input_value w_typed))"
proof -
  let ?w = "w_searched\<lparr>input_value := []\<rparr>"
  have e: "target_is_input backspace_key" "activeElement_is_input backspace_key"
    by (simp_all add: backspace_key_def)
  have c: "canSearch ?w" by code_simp
  have d: "dispatched ?w = [AddChoice ''apple'' ''Apple'' 1 (- 1) False, FilterChoices []]"
    by code_simp
  have x: "\<exists>ch \<in> set (store_choices ?w). \<not> choice_active ch"
    by (simp only: list_ex_iff [symmetric]) code_simp
  have n: "length (store_choices (priv_onKeyUp no_search backspace_key ?w)) = 1" by code_simp
  from search_only_on_new_text [of _ ?w no_search backspace_key] e c d x
  have r: "dispatched (priv_onKeyUp no_search backspace_key ?w) =
             [AddChoice ''apple'' ''Apple'' 1 (- 1) False, FilterChoices [], ActivateChoices False]"
    and all: "\<forall>ch \<in> set (store_choices (priv_onKeyUp no_search backspace_key ?w)). choice_active ch"
    by simp_all
  from n obtain ch where s: "store_choices (priv_onKeyUp no_search backspace_key ?w) = [ch]"
    by (cases "store_choices (priv_onKeyUp no_search backspace_key ?w)") auto
  with all have "choice_active ch" by simp
  with r s have second: "dispatched (priv_onKeyUp no_search backspace_key ?w) =
             [AddChoice ''apple'' ''Apple'' 1 (- 1) False, FilterChoices [], ActivateChoices False]
      \<and> map choice_active (store_choices (priv_onKeyUp no_search backspace_key ?w)) = [True]"
    by simp
  have f: "FilterChoices [] \<in> set (drop (length (dispatched w_typed))
             (dispatched (priv_onKeyUp no_search letter_key w_typed)))"
    by code_simp
  from search_only_on_new_text [of "[]" w_typed no_search letter_key] f
  have first: "1 \<le> length (trim (input_value w_typed))" by blast
  show ?thesis using first second by blast
qed

end
